theory Spec2Isabelle
  imports Main "HOL-Library.Word"
begin

section \<open>Event tags\<close>

text \<open>
  The enumeration \<^verbatim>\<open>EventType\<close> of \<^verbatim>\<open>EventSystem.hpp\<close>: the sentinel
  \<^verbatim>\<open>Type_None\<close> (-1) and one tag for each event class that declares
  \<^verbatim>\<open>HELIOS_EVENT_CLASS_TYPE\<close>.
\<close>

datatype EventType =
    Type_None
  | Type_WindowCreate | Type_WindowDestroy | Type_WindowMove | Type_WindowResize
  | Type_MouseMove | Type_MouseScroll | Type_MouseButtonClick | Type_MouseButtonRelease
  | Type_KeyPress | Type_KeyRelease | Type_KeyType

text \<open>
  The classes that use \<^verbatim>\<open>HELIOS_EVENT_CLASS_TYPE(type)\<close>, named by the macro's argument.
  Only these have a \<^verbatim>\<open>GetStaticType()\<close>, so only these can be the template argument of
  \<^verbatim>\<open>EventDispatcher::Dispatch<T>\<close> or the target of an \<^verbatim>\<open>any_cast\<close> in
  \<^verbatim>\<open>EventSystem::Dispatch\<close>.
\<close>

datatype EventClass =
    WindowCreate | WindowDestroy | WindowMove | WindowResize
  | MouseMove | MouseScroll | MouseButtonClick | MouseButtonRelease
  | KeyPress | KeyRelease | KeyType

text \<open>\<^verbatim>\<open>static EventType GetStaticType() { return Type_##type; }\<close>\<close>

fun GetStaticType :: "EventClass \<Rightarrow> EventType" where
  "GetStaticType WindowCreate = Type_WindowCreate"
| "GetStaticType WindowDestroy = Type_WindowDestroy"
| "GetStaticType WindowMove = Type_WindowMove"
| "GetStaticType WindowResize = Type_WindowResize"
| "GetStaticType MouseMove = Type_MouseMove"
| "GetStaticType MouseScroll = Type_MouseScroll"
| "GetStaticType MouseButtonClick = Type_MouseButtonClick"
| "GetStaticType MouseButtonRelease = Type_MouseButtonRelease"
| "GetStaticType KeyPress = Type_KeyPress"
| "GetStaticType KeyRelease = Type_KeyRelease"
| "GetStaticType KeyType = Type_KeyType"

section \<open>Event values\<close>

text \<open>
  A C++ \<^verbatim>\<open>int\<close> field is a 32-bit word, read as two's complement when it is printed.
  An event object is a value of one of the sixteen classes of the header: the eleven
  classes with a tag, and the five classes without one (\<^verbatim>\<open>IEvent\<close>, \<^verbatim>\<open>WindowEvent\<close>,
  \<^verbatim>\<open>MouseEvent\<close>, \<^verbatim>\<open>MouseButtonEvent\<close>, \<^verbatim>\<open>KeyEvent\<close>), which have no pure
  virtual member and so can be constructed and passed to \<^verbatim>\<open>AddEvent\<close> as well.
  Each constructor carries the private fields in declaration order.
\<close>

type_synonym cint = "32 word"

datatype IEvent =
    IEventObject
  | WindowEvent
  | WindowCreateEvent (mShowMode: cint)
  | WindowDestroyEvent
  | WindowMoveEvent cint cint
  | WindowResizeEvent cint cint
  | MouseEvent
  | MouseMoveEvent cint cint
  | MouseScrollEvent cint
  | MouseButtonEvent cint bool bool bool
  | MouseButtonClickEvent cint bool bool bool
  | MouseButtonReleaseEvent cint bool bool bool
  | KeyEvent
  | KeyPressEvent cint bool bool bool
  | KeyReleaseEvent cint bool bool bool
  | KeyTypeEvent char

text \<open>The tagged class an object belongs to, if any (its exact dynamic class).\<close>

fun class_of :: "IEvent \<Rightarrow> EventClass option" where
  "class_of IEventObject = None"
| "class_of WindowEvent = None"
| "class_of (WindowCreateEvent m) = Some WindowCreate"
| "class_of WindowDestroyEvent = Some WindowDestroy"
| "class_of (WindowMoveEvent x y) = Some WindowMove"
| "class_of (WindowResizeEvent w h) = Some WindowResize"
| "class_of MouseEvent = None"
| "class_of (MouseMoveEvent x y) = Some MouseMove"
| "class_of (MouseScrollEvent off) = Some MouseScroll"
| "class_of (MouseButtonEvent b c s a) = None"
| "class_of (MouseButtonClickEvent b c s a) = Some MouseButtonClick"
| "class_of (MouseButtonReleaseEvent b c s a) = Some MouseButtonRelease"
| "class_of KeyEvent = None"
| "class_of (KeyPressEvent k c s a) = Some KeyPress"
| "class_of (KeyReleaseEvent k c s a) = Some KeyRelease"
| "class_of (KeyTypeEvent ch) = Some KeyType"

text \<open>
  The virtual \<^verbatim>\<open>GetType()\<close>: \<^verbatim>\<open>IEvent\<close> returns \<^verbatim>\<open>Type_None\<close>, and each class with
  \<^verbatim>\<open>HELIOS_EVENT_CLASS_TYPE\<close> overrides it by \<^verbatim>\<open>return GetStaticType();\<close>. The five
  untagged classes inherit the base version.
\<close>

fun GetType :: "IEvent \<Rightarrow> EventType" where
  "GetType IEventObject = Type_None"
| "GetType WindowEvent = Type_None"
| "GetType (WindowCreateEvent m) = GetStaticType WindowCreate"
| "GetType WindowDestroyEvent = GetStaticType WindowDestroy"
| "GetType (WindowMoveEvent x y) = GetStaticType WindowMove"
| "GetType (WindowResizeEvent w h) = GetStaticType WindowResize"
| "GetType MouseEvent = Type_None"
| "GetType (MouseMoveEvent x y) = GetStaticType MouseMove"
| "GetType (MouseScrollEvent off) = GetStaticType MouseScroll"
| "GetType (MouseButtonEvent b c s a) = Type_None"
| "GetType (MouseButtonClickEvent b c s a) = GetStaticType MouseButtonClick"
| "GetType (MouseButtonReleaseEvent b c s a) = GetStaticType MouseButtonRelease"
| "GetType KeyEvent = Type_None"
| "GetType (KeyPressEvent k c s a) = GetStaticType KeyPress"
| "GetType (KeyReleaseEvent k c s a) = GetStaticType KeyRelease"
| "GetType (KeyTypeEvent ch) = GetStaticType KeyType"

section \<open>Faults\<close>

text \<open>
  Every way the header's code can leave defined behaviour or trap is a value:
  \<^item> \<open>EmptyQueueFront\<close>: \<^verbatim>\<open>sEventBus.front()\<close> on an empty \<^verbatim>\<open>std::queue\<close> (undefined);
  \<^item> \<open>DebugBreak\<close>: the \<^verbatim>\<open>__debugbreak()\<close> of the \<^verbatim>\<open>default:\<close> branch;
  \<^item> \<open>BadAnyCast\<close>: \<^verbatim>\<open>std::any_cast<T&>\<close> on an \<^verbatim>\<open>any\<close> that holds another type;
  \<^item> \<open>BadDowncast\<close>: \<^verbatim>\<open>static_cast<T*>\<close> of an object that is not a \<^verbatim>\<open>T\<close> (undefined);
  \<^item> \<open>DanglingReference\<close>: \<^verbatim>\<open>IEvent::ToString\<close> returns a reference to a temporary.
\<close>

datatype fault = EmptyQueueFront | DebugBreak | BadAnyCast | BadDowncast | DanglingReference

section \<open>ToString\<close>

text \<open>What \<^verbatim>\<open>operator<<\<close> writes for an \<^verbatim>\<open>int\<close> (decimal), a \<^verbatim>\<open>bool\<close> (1 or 0, no
  \<^verbatim>\<open>boolalpha\<close>) and a \<^verbatim>\<open>char\<close> (the character).\<close>

fun show_nat :: "nat \<Rightarrow> string" where
  "show_nat n =
     (if n < 10 then [char_of (48 + n)]
      else show_nat (n div 10) @ [char_of (48 + n mod 10)])"

declare show_nat.simps [simp del]

definition show_int :: "cint \<Rightarrow> string" where
  "show_int w = (if sint w < 0 then CHR ''-'' # show_nat (nat (- sint w)) else show_nat (nat (sint w)))"

definition show_bool :: "bool \<Rightarrow> string" where
  "show_bool b = (if b then ''1'' else ''0'')"

definition newline :: string where
  "newline = [CHR 0x0A]"

text \<open>
  The text one call of a class's \<^verbatim>\<open>ToString\<close> streams into its \<^verbatim>\<open>oss\<close>
  (the chain of \<^verbatim>\<open><<\<close> of each override). The untagged classes have no override.
\<close>

definition show_button :: "string \<Rightarrow> string \<Rightarrow> cint \<Rightarrow> bool \<Rightarrow> bool \<Rightarrow> bool \<Rightarrow> string" where
  "show_button head field n c s a =
     head @ field @ show_int n @ ''), Control: ('' @ show_bool c @ ''), Shift: ('' @ show_bool s
       @ ''), Alt: ('' @ show_bool a @ '')'' @ newline"

fun streamed :: "IEvent \<Rightarrow> string" where
  "streamed (WindowCreateEvent m) = ''[Event:WindowCreate]: ShowMode: ('' @ show_int m @ '')'' @ newline"
| "streamed WindowDestroyEvent = ''[Event:WindowDestroy]'' @ newline"
| "streamed (WindowMoveEvent x y) =
     ''[Event:WindowMove]: XPos: ('' @ show_int x @ ''), YPos: ('' @ show_int y @ '')'' @ newline"
| "streamed (WindowResizeEvent w h) =
     ''[Event:WindowResize]: Width: ('' @ show_int w @ ''), Height: ('' @ show_int h @ '')'' @ newline"
| "streamed (MouseMoveEvent x y) =
     ''[Event:MouseMove]: XPos: ('' @ show_int x @ ''), YPos: ('' @ show_int y @ '')'' @ newline"
| "streamed (MouseScrollEvent off) = ''[Event:MouseScroll]: Offset: ('' @ show_int off @ '')'' @ newline"
| "streamed (MouseButtonClickEvent b c s a) = show_button ''[Event:MouseButtonClick]: '' ''Button: ('' b c s a"
| "streamed (MouseButtonReleaseEvent b c s a) = show_button ''[Event:MouseButtonRelease]: '' ''Button: ('' b c s a"
| "streamed (KeyPressEvent k c s a) = show_button ''[Event:KeyPress]: '' ''Key: ('' k c s a"
| "streamed (KeyReleaseEvent k c s a) = show_button ''[Event:KeyRelease]: '' ''Key: ('' k c s a"
| "streamed (KeyTypeEvent ch) = ''[Event:KeyType]: Char: ('' @ [ch] @ '')'' @ newline"
| "streamed e = []"

text \<open>
  Each override declares two function-local statics:
  \<^verbatim>\<open>static std::ostringstream oss;\<close> and \<^verbatim>\<open>static std::string s = oss.str();\<close>.
  They belong to the class's member function, not to the object: \<open>oss\<close> keeps everything
  streamed by earlier calls, and \<open>s\<close> is initialised once, by the first call that reaches
  its declaration (\<open>None\<close> before that).
\<close>

record ToString_statics =
  oss :: string
  s :: "string option"

type_synonym statics = "EventClass \<Rightarrow> ToString_statics"

definition initial_statics :: statics where
  "initial_statics = (\<lambda>c. \<lparr>oss = [], s = None\<rparr>)"

text \<open>
  \<^verbatim>\<open>
  virtual const std::string& ToString() const override
  {
      static std::ostringstream oss;
      oss << "[Event:KeyPress]: Key: (" << GetKey() << ... << ")\n";
      static std::string s = oss.str();
      return s;
  }
  \<close>
  For an object of an untagged class the call goes to \<^verbatim>\<open>IEvent::ToString\<close>, whose
  \<^verbatim>\<open>return "";\<close> binds the returned reference to a temporary.
\<close>

definition ToString :: "IEvent \<Rightarrow> statics \<Rightarrow> fault + (string \<times> statics)" where
  "ToString e st =
     (case class_of e of
        None \<Rightarrow> Inl DanglingReference
      | Some c \<Rightarrow>
          let oss' = oss (st c) @ streamed e;
              s' = (case s (st c) of None \<Rightarrow> oss' | Some v \<Rightarrow> v)
          in Inr (s', st(c := \<lparr>oss = oss', s = Some s'\<rparr>)))"

text \<open>Two calls in sequence, the second on the statics the first left.\<close>

definition ToString_twice :: "IEvent \<Rightarrow> IEvent \<Rightarrow> statics \<Rightarrow> fault + (string \<times> string)" where
  "ToString_twice e1 e2 st =
     (case ToString e1 st of
        Inl f \<Rightarrow> Inl f
      | Inr (r1, st1) \<Rightarrow> (case ToString e2 st1 of Inl f \<Rightarrow> Inl f | Inr (r2, st2) \<Rightarrow> Inr (r1, r2)))"

section \<open>The dispatcher helper\<close>

text \<open>
  \<^verbatim>\<open>EventDispatcher\<close> holds a reference \<^verbatim>\<open>IEvent& mEvent\<close> to the event it was built
  from (the constructor casts the \<^verbatim>\<open>const\<close> away). The record holds the referenced
  object; the object after the call is the one of the returned record.
\<close>

record EventDispatcher =
  mEvent :: IEvent

text \<open>\<^verbatim>\<open>static_cast<T*>(&mEvent)\<close>: defined only when the object really is a \<^verbatim>\<open>T\<close>.\<close>

definition static_cast :: "EventClass \<Rightarrow> IEvent \<Rightarrow> fault + IEvent" where
  "static_cast T e = (if class_of e = Some T then Inr e else Inl BadDowncast)"

text \<open>
  \<^verbatim>\<open>
  template<typename T, typename F>
  void Dispatch(F& func)
  {
      if (mEvent.GetType() == T::GetStaticType())
          func(*static_cast<T*>(&mEvent));
  }
  \<close>
  The handler \<open>func\<close> receives the narrowed object by reference (the header's own example
  passes a \<^verbatim>\<open>[](KeyPressEvent& e) {}\<close>), so it is a function from the object and the
  state \<open>'w\<close> of the rest of the program to the object and the state after the call.
\<close>

definition EventDispatcher_Dispatch ::
  "EventClass \<Rightarrow> (IEvent \<Rightarrow> 'w \<Rightarrow> IEvent \<times> 'w) \<Rightarrow> EventDispatcher \<Rightarrow> 'w \<Rightarrow> fault + (EventDispatcher \<times> 'w)"
where
  "EventDispatcher_Dispatch T func d w =
     (if GetType (mEvent d) = GetStaticType T then
        (case static_cast T (mEvent d) of
           Inl f \<Rightarrow> Inl f
         | Inr e \<Rightarrow> (case func e w of (e', w') \<Rightarrow> Inr (d\<lparr>mEvent := e'\<rparr>, w')))
      else Inr (d, w))"

section \<open>The event system\<close>

text \<open>
  \<^verbatim>\<open>std::vector\<close> with its capacity, which is all that \<^verbatim>\<open>reserve\<close> changes. When a
  \<^verbatim>\<open>push_back\<close> finds the vector full, the new capacity is the library's choice; the
  model takes the geometric growth by half of the toolchain the header is written for
  (\<^verbatim>\<open>__debugbreak\<close> is its intrinsic). No property below depends on that choice.
\<close>

record 'a vector =
  elems :: "'a list"
  capacity :: nat


definition push_back :: "'a \<Rightarrow> 'a vector \<Rightarrow> 'a vector" where
  "push_back x v =
     \<lparr>elems = elems v @ [x],
      capacity = (if length (elems v) < capacity v then capacity v
                  else max (capacity v + capacity v div 2) (length (elems v) + 1))\<rparr>"

text \<open>
  \<^verbatim>\<open>using EventBus = std::queue<std::pair<std::any, EventType>>;\<close> is a list of pairs,
  front first; the \<^verbatim>\<open>std::any\<close> is the event object it holds.
  \<^verbatim>\<open>using EventListener = std::function<void(const IEvent&)>;\<close> is an opaque callback \<open>'l\<close>:
  the system only ever stores and calls it. A call \<^verbatim>\<open>listener(e)\<close> is recorded, in order, in
  \<open>invoked\<close>, the trace of the calls made so far. The two static members of
  \<^verbatim>\<open>EventSystem\<close> are the first two fields.
\<close>

type_synonym EventBus = "(IEvent \<times> EventType) list"

record 'l EventSystem =
  sEventBus :: EventBus
  sEventListeners :: "'l vector"
  invoked :: "('l \<times> IEvent) list"

text \<open>The static members are default-constructed: both empty.\<close>

definition initial_system :: "'l EventSystem" where
  "initial_system = \<lparr>sEventBus = [], sEventListeners = \<lparr>elems = [], capacity = 0\<rparr>, invoked = []\<rparr>"

text \<open>\<^verbatim>\<open>sEventBus.push({ e, e.GetType() });\<close> with \<open>e\<close> taken by value.\<close>

definition AddEvent :: "IEvent \<Rightarrow> 'l EventSystem \<Rightarrow> 'l EventSystem" where
  "AddEvent e sys = sys\<lparr>sEventBus := sEventBus sys @ [(e, GetType e)]\<rparr>"


text \<open>\<^verbatim>\<open>sEventListeners.push_back(e);\<close>\<close>

definition AddEventListener :: "'l \<Rightarrow> 'l EventSystem \<Rightarrow> 'l EventSystem" where
  "AddEventListener l sys = sys\<lparr>sEventListeners := push_back l (sEventListeners sys)\<rparr>"

text \<open>\<^verbatim>\<open>for (EventListener listener : sEventListeners) { listener(e); }\<close>\<close>

definition call_listener :: "IEvent \<Rightarrow> 'l EventSystem \<Rightarrow> 'l \<Rightarrow> 'l EventSystem" where
  "call_listener e sys listener = sys\<lparr>invoked := invoked sys @ [(listener, e)]\<rparr>"

definition IterateThroughEventListeners :: "IEvent \<Rightarrow> 'l EventSystem \<Rightarrow> 'l EventSystem" where
  "IterateThroughEventListeners e sys = foldl (call_listener e) sys (elems (sEventListeners sys))"

text \<open>\<^verbatim>\<open>std::any_cast<T&>(event.first)\<close> throws \<^verbatim>\<open>bad_any_cast\<close> unless the \<^verbatim>\<open>any\<close> holds
  exactly a \<^verbatim>\<open>T\<close>.\<close>

definition any_cast :: "EventClass \<Rightarrow> IEvent \<Rightarrow> fault + IEvent" where
  "any_cast T a = (if class_of a = Some T then Inr a else Inl BadAnyCast)"

text \<open>One \<^verbatim>\<open>case\<close> line of the switch:
  \<^verbatim>\<open>IterateThroughEventListeners(std::any_cast<T&>(event.first)); break;\<close>\<close>

definition deliver_as ::
  "EventClass \<Rightarrow> IEvent \<times> EventType \<Rightarrow> 'l EventSystem \<Rightarrow> (fault \<times> 'l EventSystem) + 'l EventSystem"
where
  "deliver_as T event sys =
     (case any_cast T (fst event) of
        Inl f \<Rightarrow> Inl (f, sys)
      | Inr e \<Rightarrow> Inr (IterateThroughEventListeners e sys))"

text \<open>
  Modelled from the spec: \<^verbatim>\<open>__debugbreak()\<close>, a compiler intrinsic that the header calls
  but does not define, is a trap that ends the program (the spec's fail-fast abort); the
  model stops there with the state as it is.

  The \<^verbatim>\<open>switch (event.second)\<close> of \<^verbatim>\<open>EventSystem::Dispatch\<close>, in the order of its
  \<^verbatim>\<open>case\<close> labels; \<^verbatim>\<open>default:\<close> takes every tag without a label, which is
  \<^verbatim>\<open>Type_None\<close> alone.
\<close>

definition Dispatch_switch ::
  "IEvent \<times> EventType \<Rightarrow> 'l EventSystem \<Rightarrow> (fault \<times> 'l EventSystem) + 'l EventSystem"
where
  "Dispatch_switch event sys =
     (case snd event of
        Type_WindowCreate \<Rightarrow> deliver_as WindowCreate event sys
      | Type_WindowDestroy \<Rightarrow> deliver_as WindowDestroy event sys
      | Type_WindowMove \<Rightarrow> deliver_as WindowMove event sys
      | Type_WindowResize \<Rightarrow> deliver_as WindowResize event sys
      | Type_KeyPress \<Rightarrow> deliver_as KeyPress event sys
      | Type_KeyRelease \<Rightarrow> deliver_as KeyRelease event sys
      | Type_KeyType \<Rightarrow> deliver_as KeyType event sys
      | Type_MouseScroll \<Rightarrow> deliver_as MouseScroll event sys
      | Type_MouseMove \<Rightarrow> deliver_as MouseMove event sys
      | Type_MouseButtonClick \<Rightarrow> deliver_as MouseButtonClick event sys
      | Type_MouseButtonRelease \<Rightarrow> deliver_as MouseButtonRelease event sys
      | Type_None \<Rightarrow> Inl (DebugBreak, sys))"

text \<open>\<^verbatim>\<open>sEventBus.pop();\<close> (reached only after \<^verbatim>\<open>front()\<close> found an entry).\<close>

definition pop :: "'l EventSystem \<Rightarrow> 'l EventSystem" where
  "pop sys = sys\<lparr>sEventBus := tl (sEventBus sys)\<rparr>"

lemma call_listener_bus [simp]: "sEventBus (call_listener e sys l) = sEventBus sys"
  by (simp add: call_listener_def)

lemma foldl_call_listener_bus [simp]: "sEventBus (foldl (call_listener e) sys ls) = sEventBus sys"
  by (induction ls arbitrary: sys) simp_all

lemma Dispatch_switch_bus:
  "Dispatch_switch event sys = Inr sys' \<Longrightarrow> sEventBus sys' = sEventBus sys"
  by (auto simp: Dispatch_switch_def deliver_as_def IterateThroughEventListeners_def
      split: EventType.splits sum.splits)

text \<open>
  \<^verbatim>\<open>
  for (int i = 0; i <= sEventBus.size() + 1; i++)
  {
      auto& event = sEventBus.front();
      switch (event.second) { ... }
      sEventBus.pop();
  }
  \<close>
  The bound is evaluated again before every iteration, on the queue as the pops have left
  it. The counter \<open>i\<close> is never negative and is compared as an unsigned number, so it is
  a \<open>nat\<close> (it stays below \<open>2^31\<close> for every queue of fewer than \<open>2^32 - 3\<close> entries).
  \<^verbatim>\<open>front()\<close> on an empty queue is undefined behaviour: the model stops there.
\<close>

function Dispatch_loop :: "nat \<Rightarrow> 'l EventSystem \<Rightarrow> (fault \<times> 'l EventSystem) + 'l EventSystem" where
  "Dispatch_loop i sys =
     (if i \<le> length (sEventBus sys) + 1 then
        (case sEventBus sys of
           [] \<Rightarrow> Inl (EmptyQueueFront, sys)
         | event # rest \<Rightarrow>
             (case Dispatch_switch event sys of
                Inl stop \<Rightarrow> Inl stop
              | Inr sys' \<Rightarrow> Dispatch_loop (i + 1) (pop sys')))
      else Inr sys)"
  by pat_completeness auto
termination
  by (relation "measure (\<lambda>(i, sys). length (sEventBus sys) + 2 - i)")
     (auto simp: pop_def dest: Dispatch_switch_bus)

declare Dispatch_loop.simps [simp del]

definition Dispatch :: "'l EventSystem \<Rightarrow> (fault \<times> 'l EventSystem) + 'l EventSystem" where
  "Dispatch sys = Dispatch_loop 0 sys"


text \<open>The calls made when each of the events \<open>es\<close>, in order, goes to each of the
  listeners \<open>ls\<close>, in order.\<close>

definition deliveries :: "'l list \<Rightarrow> IEvent list \<Rightarrow> ('l \<times> IEvent) list" where
  "deliveries ls es = concat (map (\<lambda>e. map (\<lambda>l. (l, e)) ls) es)"

text \<open>The state once the first \<open>k\<close> entries of the bus have each gone to every listener
  and been popped.\<close>

definition delivered :: "nat \<Rightarrow> 'l EventSystem \<Rightarrow> 'l EventSystem" where
  "delivered k sys =
     sys\<lparr>sEventBus := drop k (sEventBus sys),
         invoked := invoked sys @ deliveries (elems (sEventListeners sys)) (map fst (take k (sEventBus sys)))\<rparr>"

text \<open>An entry as \<^verbatim>\<open>AddEvent\<close> makes it for an object of a class with a tag: the tag is
  the object's own, and the switch has a \<^verbatim>\<open>case\<close> for it.\<close>

definition wired :: "IEvent \<times> EventType \<Rightarrow> bool" where
  "wired event \<longleftrightarrow> snd event = GetType (fst event) \<and> snd event \<noteq> Type_None"

section \<open>Sequences of calls\<close>






section \<open>Tags and classes\<close>

lemma GetType_class_of:
  "GetType e = (case class_of e of None \<Rightarrow> Type_None | Some c \<Rightarrow> GetStaticType c)"
  by (cases e) simp_all

lemma GetStaticType_not_None: "GetStaticType c \<noteq> Type_None"
  by (cases c) simp_all

lemma GetStaticType_inj: "GetStaticType c = GetStaticType d \<Longrightarrow> c = d"
  by (cases c; cases d) simp_all

section \<open>The dispatch loop\<close>

lemma foldl_call_listener:
  "foldl (call_listener e) sys ls = sys\<lparr>invoked := invoked sys @ map (\<lambda>l. (l, e)) ls\<rparr>"
  by (induction ls arbitrary: sys) (simp_all add: call_listener_def)

lemma IterateThroughEventListeners_eq:
  "IterateThroughEventListeners e sys =
     sys\<lparr>invoked := invoked sys @ map (\<lambda>l. (l, e)) (elems (sEventListeners sys))\<rparr>"
  by (simp add: IterateThroughEventListeners_def foldl_call_listener)

lemma deliveries_Nil [simp]: "deliveries ls [] = []"
  by (simp add: deliveries_def)

lemma deliveries_Cons [simp]: "deliveries ls (e # es) = map (\<lambda>l. (l, e)) ls @ deliveries ls es"
  by (simp add: deliveries_def)

lemma deliveries_append: "deliveries ls (es @ fs) = deliveries ls es @ deliveries ls fs"
  by (simp add: deliveries_def)

lemma delivered_0 [simp]: "delivered 0 sys = sys"
  by (simp add: delivered_def)

lemma delivered_fields [simp]:
  "sEventBus (delivered k sys) = drop k (sEventBus sys)"
  "sEventListeners (delivered k sys) = sEventListeners sys"
  "invoked (delivered k sys) = invoked sys @ deliveries (elems (sEventListeners sys)) (map fst (take k (sEventBus sys)))"
  by (simp_all add: delivered_def)

lemma delivered_delivered: "delivered k (delivered j sys) = delivered (j + k) sys"
  by (simp add: delivered_def take_add deliveries_append add.commute)


lemma Dispatch_switch_Inr:
  "Dispatch_switch event sys = Inr sys' \<Longrightarrow> sys' = IterateThroughEventListeners (fst event) sys"
  by (auto simp: Dispatch_switch_def deliver_as_def any_cast_def split: EventType.splits sum.splits if_splits)

lemma pop_after_switch:
  assumes "sEventBus sys = event # rest" and "Dispatch_switch event sys = Inr sys'"
  shows "pop sys' = delivered 1 sys"
  using assms Dispatch_switch_Inr [OF assms(2)]
  by (simp add: pop_def delivered_def IterateThroughEventListeners_eq)

lemma Dispatch_switch_wired:
  "wired event \<Longrightarrow> Dispatch_switch event sys = Inr (IterateThroughEventListeners (fst event) sys)"
  by (cases event; cases "fst event")
     (simp_all add: wired_def Dispatch_switch_def deliver_as_def any_cast_def)

lemma Dispatch_switch_None: "Dispatch_switch (e, Type_None) sys = Inl (DebugBreak, sys)"
  by (simp add: Dispatch_switch_def)

lemma Dispatch_switch_DebugBreak:
  "Dispatch_switch event sys = Inl (DebugBreak, sys') \<Longrightarrow> snd event = Type_None"
  by (auto simp: Dispatch_switch_def deliver_as_def any_cast_def split: EventType.splits sum.splits if_splits)


lemma Dispatch_loop_wired:
  assumes "\<forall>event \<in> set (sEventBus sys). wired event" and "i \<le> length (sEventBus sys) + 1"
  shows "Dispatch_loop i sys =
           (if (length (sEventBus sys) + 1 - i) div 2 + 1 \<le> length (sEventBus sys)
            then Inr (delivered ((length (sEventBus sys) + 1 - i) div 2 + 1) sys)
            else Inl (EmptyQueueFront, delivered (length (sEventBus sys)) sys))"
  using assms
proof (induction "sEventBus sys" arbitrary: i sys)
  case Nil
  then show ?case by (simp add: Dispatch_loop.simps [of i sys])
next
  case (Cons event rest)
  have bus: "sEventBus sys = event # rest" using Cons.hyps(2) by simp
  have w: "wired event" using Cons.prems(1) bus by simp
  let ?sys' = "IterateThroughEventListeners (fst event) sys"
  have sw: "Dispatch_switch event sys = Inr ?sys'" using w by (rule Dispatch_switch_wired)
  have step: "pop ?sys' = delivered 1 sys" using bus sw by (rule pop_after_switch)
  have unfold: "Dispatch_loop i sys = Dispatch_loop (i + 1) (delivered 1 sys)"
    using Cons.prems(2) bus sw step by (simp add: Dispatch_loop.simps [of i sys])
  have rest: "rest = sEventBus (delivered 1 sys)" using bus by simp
  have wrest: "\<forall>event \<in> set (sEventBus (delivered 1 sys)). wired event"
    using Cons.prems(1) bus by simp
  show ?case
  proof (cases "i + 1 \<le> length rest + 1")
    case True
    then have b: "i + 1 \<le> length (sEventBus (delivered 1 sys)) + 1" using bus by simp
    have a: "(length rest + 2 - i) div 2 = (length rest - i) div 2 + 1" using True by arith
    show ?thesis
      unfolding unfold Cons.hyps(1) [OF rest wrest b]
      using True a by (simp add: bus delivered_delivered) arith
  next
    case False
    then have "Dispatch_loop (i + 1) (delivered 1 sys) = Inr (delivered 1 sys)"
      using bus by (subst Dispatch_loop.simps) simp
    moreover have "(length (sEventBus sys) + 1 - i) div 2 + 1 = 1"
      using False Cons.prems(2) bus by simp
    ultimately show ?thesis using unfold bus by simp
  qed
qed

lemma Dispatch_loop_unwired:
  assumes "sEventBus sys = pre @ (e, Type_None) # post"
    and "\<forall>event \<in> set pre. wired event"
    and "2 * length pre + i \<le> length (sEventBus sys) + 1"
  shows "Dispatch_loop i sys = Inl (DebugBreak, delivered (length pre) sys)"
  using assms
proof (induction pre arbitrary: i sys)
  case Nil
  then show ?case by (simp add: Dispatch_loop.simps [of i sys] Dispatch_switch_None)
next
  case (Cons event pre)
  have bus: "sEventBus sys = event # (pre @ (e, Type_None) # post)" using Cons.prems(1) by simp
  let ?sys' = "IterateThroughEventListeners (fst event) sys"
  have sw: "Dispatch_switch event sys = Inr ?sys'" using Cons.prems(2) by (simp add: Dispatch_switch_wired)
  have step: "pop ?sys' = delivered 1 sys" using bus sw by (rule pop_after_switch)
  have unfold: "Dispatch_loop i sys = Dispatch_loop (i + 1) (delivered 1 sys)"
    using Cons.prems(3) bus sw step by (simp add: Dispatch_loop.simps [of i sys])
  have "Dispatch_loop (i + 1) (delivered 1 sys) = Inl (DebugBreak, delivered (length pre) (delivered 1 sys))"
    using Cons.prems bus by (intro Cons.IH) simp_all
  then show ?case using unfold by (simp add: delivered_delivered)
qed
















text \<open>What the loop does on a bus of \<open>n\<close> entries that are all wired: its bound lets it
  run \<open>(n + 1) div 2 + 1\<close> times. For \<open>n < 2\<close> that is more than \<open>n\<close>, and the last
  iteration reads the front of the empty queue; for \<open>n > 3\<close> it is fewer than \<open>n\<close>, and
  entries stay behind.\<close>

lemma Dispatch_wired:
  assumes "\<forall>event \<in> set (sEventBus sys). wired event"
  shows "Dispatch sys =
           (if (length (sEventBus sys) + 1) div 2 + 1 \<le> length (sEventBus sys)
            then Inr (delivered ((length (sEventBus sys) + 1) div 2 + 1) sys)
            else Inl (EmptyQueueFront, delivered (length (sEventBus sys)) sys))"
  using Dispatch_loop_wired [OF assms, of 0] by (simp add: Dispatch_def)

lemma Dispatch_wired_drains_iff:
  assumes "\<forall>event \<in> set (sEventBus sys). wired event"
  shows "(\<exists>sys'. Dispatch sys = Inr sys' \<and> sEventBus sys' = []) \<longleftrightarrow>
           length (sEventBus sys) = 2 \<or> length (sEventBus sys) = 3"
  unfolding Dispatch_wired [OF assms] by auto

section \<open>Properties of ToString\<close>

lemma ToString_first_call:
  assumes "class_of e = Some c" and "st c = \<lparr>oss = [], s = None\<rparr>"
  shows "ToString e st = Inr (streamed e, st(c := \<lparr>oss = streamed e, s = Some (streamed e)\<rparr>))"
  using assms by (simp add: ToString_def Let_def)

lemma ToString_later_call:
  assumes "class_of e = Some c" and "s (st c) = Some v" and "ToString e st = Inr (r, st')"
  shows "r = v"
  using assms by (auto simp: ToString_def Let_def)

lemma ToString_same_object_twice:
  "ToString_twice e e st = Inr (r1, r2) \<Longrightarrow> r1 = r2"
  by (auto simp: ToString_twice_def ToString_def Let_def split: option.splits)

section \<open>The claims\<close>

text \<open>
  C1 (the code departs from it). The claim: after N calls of \<^verbatim>\<open>AddEvent\<close>, one call of
  \<^verbatim>\<open>Dispatch\<close> invokes every registered listener exactly N times, once per event, in the
  order the events were enqueued. The code, with one listener and the four events
  \<open>a, b, c, d\<close> enqueued in that order: the loop's bound \<^verbatim>\<open>i <= sEventBus.size() + 1\<close>
  is read again after every pop, so the loop runs three times; the listener is invoked
  three times, for \<open>a\<close>, \<open>b\<close> and \<open>c\<close>, and \<open>d\<close> is still queued when the call returns.
\<close>

theorem Dispatch_four_events_invokes_three_times:
  "Dispatch
     (AddEvent (KeyTypeEvent CHR ''d'')
       (AddEvent (KeyTypeEvent CHR ''c'')
         (AddEvent (KeyTypeEvent CHR ''b'')
           (AddEvent (KeyTypeEvent CHR ''a'')
             (AddEventListener (1::nat) initial_system))))) =
   Inr \<lparr>sEventBus = [(KeyTypeEvent CHR ''d'', Type_KeyType)],
        sEventListeners = \<lparr>elems = [1], capacity = 1\<rparr>,
        invoked = [(1, KeyTypeEvent CHR ''a''), (1, KeyTypeEvent CHR ''b''), (1, KeyTypeEvent CHR ''c'')]\<rparr>"
  by code_simp

text \<open>
  C2 (the code departs from it). The claim: when \<^verbatim>\<open>Dispatch\<close> completes the bus is
  empty, whatever it held before. The code, with six entries in the bus (and no listener):
  the loop stops after four iterations and the call returns with the last two entries
  still in the bus.
\<close>

theorem Dispatch_six_events_leaves_two:
  "Dispatch
     \<lparr>sEventBus =
        [(WindowDestroyEvent, Type_WindowDestroy), (MouseScrollEvent 1, Type_MouseScroll),
         (MouseScrollEvent 2, Type_MouseScroll), (MouseScrollEvent 3, Type_MouseScroll),
         (MouseScrollEvent 4, Type_MouseScroll), (MouseScrollEvent 5, Type_MouseScroll)],
      sEventListeners = \<lparr>elems = ([] :: nat list), capacity = 0\<rparr>,
      invoked = []\<rparr> =
   Inr \<lparr>sEventBus = [(MouseScrollEvent 4, Type_MouseScroll), (MouseScrollEvent 5, Type_MouseScroll)],
        sEventListeners = \<lparr>elems = [], capacity = 0\<rparr>,
        invoked = []\<rparr>"
  by code_simp

text \<open>
  C3 (the code departs from it). The claim: on an empty bus \<^verbatim>\<open>Dispatch\<close> does nothing, and
  never reads the front of an empty queue. The code, on the empty bus with one listener
  registered: the first test of the loop is \<open>0 \<le> 0 + 1\<close>, so the body runs and its first
  statement is \<^verbatim>\<open>sEventBus.front()\<close> on the empty queue.
\<close>

theorem Dispatch_empty_bus_reads_front:
  "Dispatch (AddEventListener (1::nat) initial_system) =
     Inl (EmptyQueueFront, AddEventListener 1 initial_system)"
  by code_simp

text \<open>
  C4. For every event object, class \<open>V\<close> with a tag and handler \<open>h\<close>,
  \<^verbatim>\<open>EventDispatcher(e).Dispatch<V>(h)\<close> never faults; when the object's dynamic tag is
  \<open>V\<close>'s static tag it is exactly one application of \<open>h\<close> to the object, and otherwise the
  object and the rest of the state are returned as they were. The tags are equal exactly
  when the object is a \<open>V\<close>, which is what makes the narrowing cast defined.
\<close>

theorem EventDispatcher_Dispatch_iff:
  "EventDispatcher_Dispatch V h d w =
     (if GetType (mEvent d) = GetStaticType V
      then (case h (mEvent d) w of (e', w') \<Rightarrow> Inr (d\<lparr>mEvent := e'\<rparr>, w'))
      else Inr (d, w))
   \<and> (GetType (mEvent d) = GetStaticType V \<longleftrightarrow> class_of (mEvent d) = Some V)"
proof -
  have tag: "GetType (mEvent d) = GetStaticType V \<longleftrightarrow> class_of (mEvent d) = Some V"
    by (cases "class_of (mEvent d)")
       (auto simp: GetType_class_of GetStaticType_not_None [symmetric] dest: GetStaticType_inj)
  then show ?thesis
    by (simp add: EventDispatcher_Dispatch_def static_cast_def)
qed

text \<open>A handler that counts its calls is called once on a key press and not at all on a
  mouse click.\<close>

theorem EventDispatcher_Dispatch_iff_witness:
  "EventDispatcher_Dispatch KeyPress (\<lambda>e n. (e, Suc n))
       \<lparr>mEvent = KeyPressEvent 97 False False False\<rparr> (0::nat) =
     Inr (\<lparr>mEvent = KeyPressEvent 97 False False False\<rparr>, 1)
   \<and> EventDispatcher_Dispatch KeyPress (\<lambda>e n. (e, Suc n))
       \<lparr>mEvent = MouseButtonClickEvent 2 False False False\<rparr> (0::nat) =
     Inr (\<lparr>mEvent = MouseButtonClickEvent 2 False False False\<rparr>, 0)"
  using EventDispatcher_Dispatch_iff [of KeyPress "\<lambda>e n. (e, Suc n)"
          "\<lparr>mEvent = KeyPressEvent 97 False False False\<rparr>" "0::nat"]
        EventDispatcher_Dispatch_iff [of KeyPress "\<lambda>e n. (e, Suc n)"
          "\<lparr>mEvent = MouseButtonClickEvent 2 False False False\<rparr>" "0::nat"]
  by simp

text \<open>
  C5 (the code departs from it). The claim: \<^verbatim>\<open>ToString\<close> returns the description of the
  object it is called on, for every object, also for a second object of a class whose
  first object has been described. The code: the \<^verbatim>\<open>static std::string s\<close> of each
  override is initialised by the first call only, so on a fresh program the call on
  \<^verbatim>\<open>KeyPressEvent(98)\<close> that follows a call on \<^verbatim>\<open>KeyPressEvent(97)\<close> returns the
  description of the first object, with key 97.
\<close>

theorem ToString_second_object_gets_first_description:
  "ToString_twice (KeyPressEvent 97 False False False) (KeyPressEvent 98 False False False)
     initial_statics =
   Inr (''[Event:KeyPress]: Key: (97), Control: (0), Shift: (0), Alt: (0)'' @ newline,
        ''[Event:KeyPress]: Key: (97), Control: (0), Shift: (0), Alt: (0)'' @ newline)"
  by code_simp

text \<open>
  C6. When the loop of \<^verbatim>\<open>Dispatch\<close> reaches an entry whose tag has no \<^verbatim>\<open>case\<close> label,
  the call stops in the breakpoint trap right there: the entries before it have been
  delivered and popped, the entry itself is still at the front of the bus, and no listener
  has been called for it or for anything behind it. The tag without a label is
  \<^verbatim>\<open>Type_None\<close>, and no other tag leads to the trap. The loop reaches the entry at
  position \<open>p\<close> (from 0) of a bus of \<open>n\<close> entries when \<open>2 * p \<le> n + 1\<close>.
\<close>

theorem Dispatch_traps_on_unwired_tag:
  assumes "sEventBus sys = pre @ (e, Type_None) # post"
    and "\<forall>event \<in> set pre. wired event"
    and "2 * length pre \<le> length (sEventBus sys) + 1"
  shows "Dispatch sys =
           Inl (DebugBreak,
                sys\<lparr>sEventBus := (e, Type_None) # post,
                    invoked := invoked sys @ deliveries (elems (sEventListeners sys)) (map fst pre)\<rparr>)
         \<and> (\<forall>event. (\<exists>sys'. Dispatch_switch event sys = Inl (DebugBreak, sys')) \<longleftrightarrow>
               snd event = Type_None)"
proof (rule conjI)
  have "Dispatch sys = Inl (DebugBreak, delivered (length pre) sys)"
    using Dispatch_loop_unwired [OF assms(1,2), of 0] assms(3) by (simp add: Dispatch_def)
  then show "Dispatch sys =
           Inl (DebugBreak,
                sys\<lparr>sEventBus := (e, Type_None) # post,
                    invoked := invoked sys @ deliveries (elems (sEventListeners sys)) (map fst pre)\<rparr>)"
    using assms(1) by (simp add: delivered_def)
next
  show "\<forall>event. (\<exists>sys'. Dispatch_switch event sys = Inl (DebugBreak, sys')) \<longleftrightarrow> snd event = Type_None"
  proof
    fix event :: "IEvent \<times> EventType"
    show "(\<exists>sys'. Dispatch_switch event sys = Inl (DebugBreak, sys')) \<longleftrightarrow> snd event = Type_None"
    proof
      assume "\<exists>sys'. Dispatch_switch event sys = Inl (DebugBreak, sys')"
      then show "snd event = Type_None" by (auto dest: Dispatch_switch_DebugBreak)
    next
      assume "snd event = Type_None"
      then have "Dispatch_switch event sys = Inl (DebugBreak, sys)"
        using Dispatch_switch_None [of "fst event" sys] by (cases event) simp
      then show "\<exists>sys'. Dispatch_switch event sys = Inl (DebugBreak, sys')" by blast
    qed
  qed
qed

theorem Dispatch_traps_on_unwired_tag_witness:
  "wired (KeyTypeEvent CHR ''x'', Type_KeyType)
   \<and> Dispatch
       \<lparr>sEventBus = [(KeyTypeEvent CHR ''x'', Type_KeyType), (WindowEvent, Type_None),
                     (KeyPressEvent 97 False False False, Type_KeyPress)],
        sEventListeners = \<lparr>elems = [1::nat], capacity = 1\<rparr>,
        invoked = []\<rparr> =
     Inl (DebugBreak,
          \<lparr>sEventBus = [(WindowEvent, Type_None), (KeyPressEvent 97 False False False, Type_KeyPress)],
           sEventListeners = \<lparr>elems = [1], capacity = 1\<rparr>,
           invoked = [(1, KeyTypeEvent CHR ''x'')]\<rparr>)"
proof -
  let ?pre = "[(KeyTypeEvent CHR ''x'', Type_KeyType)]"
  let ?post = "[(KeyPressEvent 97 False False False, Type_KeyPress)]"
  let ?sys = "\<lparr>sEventBus = ?pre @ (WindowEvent, Type_None) # ?post,
               sEventListeners = \<lparr>elems = [1::nat], capacity = 1\<rparr>,
               invoked = []\<rparr>"
  have bus: "sEventBus ?sys = ?pre @ (WindowEvent, Type_None) # ?post" by simp
  have pre: "\<forall>event \<in> set ?pre. wired event" by (simp add: wired_def)
  have reach: "2 * length ?pre \<le> length (sEventBus ?sys) + 1" by simp
  from Dispatch_traps_on_unwired_tag [OF bus pre reach]
  have "Dispatch ?sys =
          Inl (DebugBreak,
               ?sys\<lparr>sEventBus := (WindowEvent, Type_None) # ?post,
                    invoked := invoked ?sys @ deliveries (elems (sEventListeners ?sys)) (map fst ?pre)\<rparr>)"
    by (rule conjunct1)
  with pre show ?thesis by simp
qed

text \<open>
  C7. For every object \<open>e\<close> of a class \<open>V\<close> with a tag, \<^verbatim>\<open>AddEvent(e)\<close> returns a state
  (it has no fault) whose bus is the old bus followed by the one entry \<open>(e, V's static tag)\<close>:
  the bus is one longer, its old entries are the same and in the same places, and the
  listeners and the calls made so far are untouched. The entry holds the value of \<open>e\<close>
  itself, as the \<^verbatim>\<open>std::any\<close> holds its own copy of the by-value parameter; the event
  classes have no pointer or reference member through which the copy could reach the
  caller's object.
\<close>

theorem AddEvent_appends_tagged_copy:
  assumes "class_of e = Some V"
  shows "AddEvent e sys = sys\<lparr>sEventBus := sEventBus sys @ [(e, GetStaticType V)]\<rparr>
         \<and> length (sEventBus (AddEvent e sys)) = length (sEventBus sys) + 1
         \<and> take (length (sEventBus sys)) (sEventBus (AddEvent e sys)) = sEventBus sys
         \<and> last (sEventBus (AddEvent e sys)) = (e, GetStaticType V)
         \<and> sEventListeners (AddEvent e sys) = sEventListeners sys
         \<and> invoked (AddEvent e sys) = invoked sys"
  using assms by (simp add: AddEvent_def GetType_class_of)

theorem AddEvent_appends_tagged_copy_witness:
  "class_of (KeyPressEvent 97 False False False) = Some KeyPress
   \<and> sEventBus (AddEvent (KeyPressEvent 97 False False False)
        \<lparr>sEventBus = [(WindowDestroyEvent, Type_WindowDestroy)],
         sEventListeners = \<lparr>elems = [1::nat], capacity = 1\<rparr>, invoked = []\<rparr>) =
     [(WindowDestroyEvent, Type_WindowDestroy), (KeyPressEvent 97 False False False, Type_KeyPress)]"
  using AddEvent_appends_tagged_copy [of "KeyPressEvent 97 False False False" KeyPress
    "\<lparr>sEventBus = [(WindowDestroyEvent, Type_WindowDestroy)],
      sEventListeners = \<lparr>elems = [1::nat], capacity = 1\<rparr>, invoked = []\<rparr>"]
  by simp







end
